theory Spec2Isabelle
  imports Complex_Main "HOL-Library.Sublist" "HOL-Library.Multiset"
begin

section \<open>The configuration document\<close>

text \<open>
  The daemon's configuration is a Python dictionary read from
  \<^verbatim>\<open>/etc/yggdrasil/yggdrasil.conf\<close>.  The part of it the backend touches is laid out
  in ARCHITECTURE.md (``Configuration Structure''): a list of peer URIs, a
  \<^verbatim>\<open>TunnelRouting\<close> block holding a flag and four route lists, and the admin socket
  address.  JSON arrays arrive as Python lists, so the route ``sets'' are lists here:
  order and repeated entries are kept as the code keeps them.  A document has the keys
  of that structure; the routing block as a whole may be missing.
\<close>

record tunnel_routing =
  Enable :: bool
  IPv6Destinations :: "string list"
  IPv6Sources :: "string list"
  IPv4Destinations :: "string list"
  IPv4Sources :: "string list"

record config =
  Peers :: "string list"
  TunnelRouting :: "tunnel_routing option"
  AdminListen :: string

section \<open>Exit node toggle\<close>

text \<open>
  IMPLEMENTATION\_NOTES.md, section 5:
  \<^verbatim>\<open>
  if enabled:
      tunnel_routing['Enable'] = True
      if '::/0' not in tunnel_routing['IPv6Destinations']:
          tunnel_routing['IPv6Destinations'].append('::/0')
  else:
      if '::/0' in tunnel_routing['IPv6Destinations']:
          tunnel_routing['IPv6Destinations'].remove('::/0')
      # Auto-disable if no other routes
      if not any([IPv6Destinations, IPv6Sources, IPv4Destinations, IPv4Sources]):
          tunnel_routing['Enable'] = False
  \<close>
  Python's \<^verbatim>\<open>list.remove\<close> deletes the first occurrence only, which is \<^const>\<open>remove1\<close>;
  \<^verbatim>\<open>any\<close> over a list of lists is true when one of them is non-empty.
\<close>

definition any_routes :: "tunnel_routing \<Rightarrow> bool" where
  "any_routes tr =
     list_ex (\<lambda>routes. routes \<noteq> [])
       [IPv6Destinations tr, IPv6Sources tr, IPv4Destinations tr, IPv4Sources tr]"

definition toggle_exit_node :: "bool \<Rightarrow> tunnel_routing \<Rightarrow> tunnel_routing" where
  "toggle_exit_node enabled tr =
     (if enabled then
        (let tr1 = tr\<lparr>Enable := True\<rparr> in
         if ''::/0'' \<notin> set (IPv6Destinations tr1)
         then tr1\<lparr>IPv6Destinations := IPv6Destinations tr1 @ [''::/0'']\<rparr>
         else tr1)
      else
        (let tr1 = (if ''::/0'' \<in> set (IPv6Destinations tr)
                    then tr\<lparr>IPv6Destinations := remove1 ''::/0'' (IPv6Destinations tr)\<rparr>
                    else tr) in
         if \<not> any_routes tr1 then tr1\<lparr>Enable := False\<rparr> else tr1))"

text \<open>
  Modelled from the spec: the routing block of a document that has none.  The spec's
  scenario for such a document expects \<^verbatim>\<open>{enabled: true, advertisedRoutes: {"::/0"}}\<close>
  after enabling, so the block starts disabled with four empty route lists.
\<close>

definition empty_tunnel_routing :: tunnel_routing where
  "empty_tunnel_routing =
     \<lparr>Enable = False, IPv6Destinations = [], IPv6Sources = [],
      IPv4Destinations = [], IPv4Sources = []\<rparr>"

text \<open>
  Modelled from the spec: how \<^verbatim>\<open>tunnel_routing\<close> is obtained from the loaded document is
  not part of the snippet.  The notes say the toggle ``handles partial configurations
  gracefully'': a missing block is read as the empty one.
\<close>

definition tunnel_routing_of :: "config \<Rightarrow> tunnel_routing" where
  "tunnel_routing_of cfg =
     (case TunnelRouting cfg of None \<Rightarrow> empty_tunnel_routing | Some tr \<Rightarrow> tr)"

text \<open>
  The toggle applied to a document: the snippet works on the routing block of the loaded
  configuration, and the block is written back into it.
\<close>

definition set_exit_node :: "bool \<Rightarrow> config \<Rightarrow> config" where
  "set_exit_node enabled cfg =
     cfg\<lparr>TunnelRouting := Some (toggle_exit_node enabled (tunnel_routing_of cfg))\<rparr>"

text \<open>The response fields \<^verbatim>\<open>enabled\<close> and \<^verbatim>\<open>advertised_routes\<close> (API.md, endpoint 6).\<close>

definition exit_node_response :: "config \<Rightarrow> bool \<times> string list" where
  "exit_node_response cfg =
     (Enable (tunnel_routing_of cfg), IPv6Destinations (tunnel_routing_of cfg))"

text \<open>
  The document invariant of the spec: routing is enabled only if at least one of the
  four route lists is non-empty.
\<close>

definition routing_invariant :: "tunnel_routing \<Rightarrow> bool" where
  "routing_invariant tr = (Enable tr \<longrightarrow> any_routes tr)"

section \<open>Python string helpers\<close>

text \<open>
  \<^verbatim>\<open>str.lower()\<close> on the ASCII letters (region and process names are ASCII), and the
  substring test \<^verbatim>\<open>sub in s\<close>.
\<close>

definition py_lower_char :: "char \<Rightarrow> char" where
  "py_lower_char c =
     (case map_of (zip ''ABCDEFGHIJKLMNOPQRSTUVWXYZ'' ''abcdefghijklmnopqrstuvwxyz'') c of
        None \<Rightarrow> c
      | Some l \<Rightarrow> l)"

definition py_lower :: "string \<Rightarrow> string" where
  "py_lower s = map py_lower_char s"

fun py_in :: "string \<Rightarrow> string \<Rightarrow> bool" where
  "py_in sub [] = (sub = [])"
| "py_in sub (c # cs) = (prefix sub (c # cs) \<or> py_in sub cs)"

section \<open>Bootstrap: selecting and merging public peers\<close>

datatype error = ValueError | ConfigCorrupt

text \<open>
  IMPLEMENTATION\_NOTES.md, section 3:
  \<^verbatim>\<open>
  preferred_regions = ['us', 'europe', 'united states', 'germany', ...]
  for country, peers in peer_data.items():
      if any(region in country.lower() for region in preferred_regions):
          available_peers.extend(peers)

  # Random selection for load distribution
  selected_peers = random.sample(available_peers, 3)

  # Deduplication
  existing_peers = set(config['Peers'])
  for peer in selected_peers:
      if peer not in existing_peers:
          config['Peers'].append(peer)
  \<close>
  The peer feed is a dictionary from region name to peer URIs, kept as an association
  list in iteration order.  The list of preferred regions is cut short in the notes, so
  it is a parameter.
\<close>

fun region_filter :: "string list \<Rightarrow> (string \<times> string list) list \<Rightarrow> string list" where
  "region_filter preferred_regions [] = []"
| "region_filter preferred_regions ((country, peers) # rest) =
     (if list_ex (\<lambda>region. py_in region (py_lower country)) preferred_regions
      then peers @ region_filter preferred_regions rest
      else region_filter preferred_regions rest)"

text \<open>
  Modelled from the spec: the fallback to the whole feed when no region matches is
  described in the notes (``Fallback to global if regional unavailable'') and in the
  spec's step (2), but is not in the snippet.
\<close>

definition eligible_peers :: "string list \<Rightarrow> (string \<times> string list) list \<Rightarrow> string list" where
  "eligible_peers preferred_regions peer_data =
     (let available_peers = region_filter preferred_regions peer_data in
      if available_peers = [] then concat (map snd peer_data) else available_peers)"

text \<open>
  \<^verbatim>\<open>random.sample(population, k)\<close> raises \<^verbatim>\<open>ValueError\<close> when \<^verbatim>\<open>k\<close> exceeds the size of
  the population, and otherwise returns \<^verbatim>\<open>k\<close> elements taken from distinct positions.
  The generator is an explicit argument: \<open>rnd i\<close> is the number drawn when \<open>i\<close> elements
  are still to be chosen, and it picks a position of the remaining pool.
\<close>

fun draw :: "(nat \<Rightarrow> nat) \<Rightarrow> 'a list \<Rightarrow> nat \<Rightarrow> 'a list" where
  "draw rnd pool 0 = []"
| "draw rnd [] (Suc k) = []"
| "draw rnd (p # ps) (Suc k) =
     (let j = rnd k mod length (p # ps) in
      (p # ps) ! j # draw rnd (take j (p # ps) @ drop (Suc j) (p # ps)) k)"

definition random_sample :: "(nat \<Rightarrow> nat) \<Rightarrow> 'a list \<Rightarrow> nat \<Rightarrow> error + 'a list" where
  "random_sample rnd population k =
     (if length population < k then Inl ValueError else Inr (draw rnd population k))"

text \<open>
  The deduplication loop.  \<^verbatim>\<open>existing_peers\<close> is computed once, before the loop; the
  loop appends to \<^verbatim>\<open>config['Peers']\<close>.  The second component collects the appended
  URIs, which the endpoint reports as \<^verbatim>\<open>peers_added\<close> (API.md, endpoint 5).
\<close>

fun append_novel ::
  "string set \<Rightarrow> string list \<Rightarrow> string list \<times> string list \<Rightarrow> string list \<times> string list" where
  "append_novel existing_peers [] (peers, added) = (peers, added)"
| "append_novel existing_peers (peer # selected) (peers, added) =
     (if peer \<notin> existing_peers
      then append_novel existing_peers selected (peers @ [peer], added @ [peer])
      else append_novel existing_peers selected (peers, added))"

record bootstrap_result =
  peers_added :: "string list"
  total_peers :: nat
  new_config :: config

definition bootstrap ::
  "(nat \<Rightarrow> nat) \<Rightarrow> string list \<Rightarrow> (string \<times> string list) list \<Rightarrow> config
     \<Rightarrow> error + bootstrap_result" where
  "bootstrap rnd preferred_regions peer_data cfg =
     (case random_sample rnd (eligible_peers preferred_regions peer_data) 3 of
        Inl e \<Rightarrow> Inl e
      | Inr selected_peers \<Rightarrow>
          (case append_novel (set (Peers cfg)) selected_peers (Peers cfg, []) of
             (peers, added) \<Rightarrow>
               Inr \<lparr>peers_added = added, total_peers = length peers,
                    new_config = cfg\<lparr>Peers := peers\<rparr>\<rparr>))"

section \<open>Config store\<close>

text \<open>
  IMPLEMENTATION\_NOTES.md, section 2:
  \<^verbatim>\<open>
  def read_yggdrasil_config():
      try:
          content = f.read()
          try:
              return json.loads(content)  # Try JSON
          except json.JSONDecodeError:
              return toml.loads(content)  # Fall back to TOML
      except FileNotFoundError:
          return mock_config  # Dev mode fallback
  \<close>
  The file is \<open>None\<close> when it does not exist.  \<^verbatim>\<open>json.loads\<close> and \<^verbatim>\<open>toml.loads\<close> are
  library functions and are parameters; \<open>None\<close> stands for their decode error.  A decode
  error of \<^verbatim>\<open>toml.loads\<close> is not caught by the function and leaves it: this is the
  failure the spec calls \<^verbatim>\<open>ConfigCorrupt\<close>.  The value of \<^verbatim>\<open>mock_config\<close> is not shown, so it
  is a parameter too.
\<close>

definition read_yggdrasil_config ::
  "config \<Rightarrow> (string \<Rightarrow> config option) \<Rightarrow> (string \<Rightarrow> config option) \<Rightarrow> string option
     \<Rightarrow> error + config" where
  "read_yggdrasil_config mock json_loads toml_loads file =
     (case file of
        None \<Rightarrow> Inr mock
      | Some content \<Rightarrow>
          (case json_loads content of
             Some cfg \<Rightarrow> Inr cfg
           | None \<Rightarrow>
               (case toml_loads content of
                  Some cfg \<Rightarrow> Inr cfg
                | None \<Rightarrow> Inl ConfigCorrupt)))"

text \<open>
  Modelled from the spec: the default document returned when no file exists has ``empty
  peers, routing disabled, default admin listen address''; the address is the one of
  ARCHITECTURE.md.
\<close>

definition mock_config :: config where
  "mock_config =
     \<lparr>Peers = [], TunnelRouting = Some empty_tunnel_routing,
      AdminListen = ''unix:///var/run/yggdrasil/yggdrasil.sock''\<rparr>"

text \<open>
  The file system is a map from paths to contents together with a flag saying whether
  the configuration directory can be written.  The configuration file is the one named
  in API.md.
\<close>

record filesystem =
  files :: "string \<Rightarrow> string option"
  writable :: bool

definition conf_path :: string where
  "conf_path = ''/etc/yggdrasil/yggdrasil.conf''"

text \<open>
  Modelled from the spec: the ``sibling temporary location'' of the atomic write, and the
  two file operations it uses.
\<close>

definition tmp_path :: string where
  "tmp_path = ''/etc/yggdrasil/yggdrasil.conf.tmp''"

definition write_file :: "string \<Rightarrow> string \<Rightarrow> filesystem \<Rightarrow> filesystem" where
  "write_file path content fs = fs\<lparr>files := (files fs)(path \<mapsto> content)\<rparr>"

definition rename_file :: "string \<Rightarrow> string \<Rightarrow> filesystem \<Rightarrow> filesystem" where
  "rename_file src dst fs =
     (case files fs src of
        None \<Rightarrow> fs
      | Some content \<Rightarrow> fs\<lparr>files := (files fs)(dst \<mapsto> content, src := None)\<rparr>)"

text \<open>
  Modelled from the spec: \<^verbatim>\<open>write_yggdrasil_config\<close> is documented in API.md (it returns
  \<^verbatim>\<open>True\<close> if successful, \<^verbatim>\<open>False\<close> otherwise) but its body is not shown anywhere.
  Following the spec's \<^verbatim>\<open>save\<close>, it serialises the document with \<^verbatim>\<open>json.dumps\<close> (a
  library function, hence a parameter), writes the text to the temporary file and renames
  that file over the configuration file.
\<close>

definition write_yggdrasil_config ::
  "(config \<Rightarrow> string) \<Rightarrow> config \<Rightarrow> filesystem \<Rightarrow> bool \<times> filesystem" where
  "write_yggdrasil_config json_dumps cfg fs =
     (if writable fs
      then (True, rename_file tmp_path conf_path (write_file tmp_path (json_dumps cfg) fs))
      else (False, fs))"

text \<open>Loading reads the configuration file of the file system.\<close>

definition load_config ::
  "config \<Rightarrow> (string \<Rightarrow> config option) \<Rightarrow> (string \<Rightarrow> config option) \<Rightarrow> filesystem
     \<Rightarrow> error + config" where
  "load_config mock json_loads toml_loads fs =
     read_yggdrasil_config mock json_loads toml_loads (files fs conf_path)"

section \<open>The JSON text of a configuration document\<close>

text \<open>
  Modelled from the spec: the ``structured-JSON-like'' canonical output format.  The
  serialiser \<^verbatim>\<open>json.dumps\<close> is a library function whose output, with the default
  separators, is written out here for documents of the structure above; in a string it
  escapes the double quote and the backslash and writes every other printable ASCII
  character as it is.  Keys are written as JSON strings followed by a colon and a space.
\<close>

definition dq :: char where
  "dq = CHR 0x22"

definition bs :: char where
  "bs = CHR 0x5C"

definition json_escape_char :: "char \<Rightarrow> string" where
  "json_escape_char c = (if c = dq \<or> c = bs then [bs, c] else [c])"

definition json_string :: "string \<Rightarrow> string" where
  "json_string s = dq # concat (map json_escape_char s) @ [dq]"

definition json_key :: "string \<Rightarrow> string" where
  "json_key k = json_string k @ '': ''"

definition json_bool :: "bool \<Rightarrow> string" where
  "json_bool b = (if b then ''true'' else ''false'')"

definition json_more :: "string list \<Rightarrow> string" where
  "json_more xs = concat (map (\<lambda>x. '', '' @ json_string x) xs)"

definition json_list :: "string list \<Rightarrow> string" where
  "json_list xs =
     (case xs of
        [] \<Rightarrow> ''[]''
      | x # ys \<Rightarrow> ''['' @ json_string x @ json_more ys @ '']'')"

definition json_tunnel_routing :: "tunnel_routing \<Rightarrow> string" where
  "json_tunnel_routing tr =
     ''{'' @ json_key ''Enable'' @ json_bool (Enable tr) @
     '', '' @ json_key ''IPv6Destinations'' @ json_list (IPv6Destinations tr) @
     '', '' @ json_key ''IPv6Sources'' @ json_list (IPv6Sources tr) @
     '', '' @ json_key ''IPv4Destinations'' @ json_list (IPv4Destinations tr) @
     '', '' @ json_key ''IPv4Sources'' @ json_list (IPv4Sources tr) @ ''}''"

definition config_to_json :: "config \<Rightarrow> string" where
  "config_to_json cfg =
     ''{'' @ json_key ''Peers'' @ json_list (Peers cfg) @
     (case TunnelRouting cfg of
        None \<Rightarrow> []
      | Some tr \<Rightarrow> '', '' @ json_key ''TunnelRouting'' @ json_tunnel_routing tr) @
     '', '' @ json_key ''AdminListen'' @ json_string (AdminListen cfg) @ ''}''"

text \<open>
  Modelled from the spec: the structured-JSON-like parse, on texts of the canonical
  layout.  \<^verbatim>\<open>json.loads\<close> is a library function; this parser reads the layout that the
  serialiser above writes and fails (the decode error) on any other text.  Every
  parser takes the text and returns the value read together with the rest of the text.
\<close>

definition expect :: "string \<Rightarrow> string \<Rightarrow> string option" where
  "expect lit s = (if prefix lit s then Some (drop (length lit) s) else None)"

fun parse_string_body :: "string \<Rightarrow> (string \<times> string) option" where
  "parse_string_body [] = None"
| "parse_string_body [c] = (if c = dq then Some ([], []) else None)"
| "parse_string_body (c # e # rest) =
     (if c = dq then Some ([], e # rest)
      else if c = bs
      then (if e = dq \<or> e = bs
            then (case parse_string_body rest of
                    None \<Rightarrow> None
                  | Some (s, r) \<Rightarrow> Some (e # s, r))
            else None)
      else (case parse_string_body (e # rest) of
              None \<Rightarrow> None
            | Some (s, r) \<Rightarrow> Some (c # s, r)))"

definition parse_string :: "string \<Rightarrow> (string \<times> string) option" where
  "parse_string s =
     (case expect [dq] s of
        None \<Rightarrow> None
      | Some r \<Rightarrow> parse_string_body r)"

definition parse_bool :: "string \<Rightarrow> (bool \<times> string) option" where
  "parse_bool s =
     (case expect ''true'' s of
        Some r \<Rightarrow> Some (True, r)
      | None \<Rightarrow>
          (case expect ''false'' s of
             Some r \<Rightarrow> Some (False, r)
           | None \<Rightarrow> None))"

text \<open>
  The elements of an array after the first; the first argument bounds the number of
  elements still to be read, and the length of the text is always enough.
\<close>

fun parse_more :: "nat \<Rightarrow> string \<Rightarrow> (string list \<times> string) option" where
  "parse_more 0 s = None"
| "parse_more (Suc n) s =
     (case expect '']'' s of
        Some r \<Rightarrow> Some ([], r)
      | None \<Rightarrow>
          (case expect '', '' s of
             None \<Rightarrow> None
           | Some r \<Rightarrow>
               (case parse_string r of
                  None \<Rightarrow> None
                | Some (x, r') \<Rightarrow>
                    (case parse_more n r' of
                       None \<Rightarrow> None
                     | Some (xs, r'') \<Rightarrow> Some (x # xs, r'')))))"

definition parse_list :: "string \<Rightarrow> (string list \<times> string) option" where
  "parse_list s =
     (case expect ''['' s of
        None \<Rightarrow> None
      | Some r \<Rightarrow>
          (case expect '']'' r of
             Some r' \<Rightarrow> Some ([], r')
           | None \<Rightarrow>
               (case parse_string r of
                  None \<Rightarrow> None
                | Some (x, r') \<Rightarrow>
                    (case parse_more (length r') r' of
                       None \<Rightarrow> None
                     | Some (xs, r'') \<Rightarrow> Some (x # xs, r'')))))"

text \<open>A key and its value; \<open>sep\<close> is the text that must come before the key.\<close>

definition parse_member ::
  "string \<Rightarrow> string \<Rightarrow> (string \<Rightarrow> ('a \<times> string) option) \<Rightarrow> string \<Rightarrow> ('a \<times> string) option" where
  "parse_member sep k parse_value s =
     (case expect (sep @ json_key k) s of
        None \<Rightarrow> None
      | Some r \<Rightarrow> parse_value r)"

definition parse_tunnel_routing :: "string \<Rightarrow> (tunnel_routing \<times> string) option" where
  "parse_tunnel_routing s =
     (case parse_member ''{'' ''Enable'' parse_bool s of
        None \<Rightarrow> None
      | Some (en, r1) \<Rightarrow>
     (case parse_member '', '' ''IPv6Destinations'' parse_list r1 of
        None \<Rightarrow> None
      | Some (d6, r2) \<Rightarrow>
     (case parse_member '', '' ''IPv6Sources'' parse_list r2 of
        None \<Rightarrow> None
      | Some (s6, r3) \<Rightarrow>
     (case parse_member '', '' ''IPv4Destinations'' parse_list r3 of
        None \<Rightarrow> None
      | Some (d4, r4) \<Rightarrow>
     (case parse_member '', '' ''IPv4Sources'' parse_list r4 of
        None \<Rightarrow> None
      | Some (s4, r5) \<Rightarrow>
     (case expect ''}'' r5 of
        None \<Rightarrow> None
      | Some r6 \<Rightarrow>
          Some (\<lparr>Enable = en, IPv6Destinations = d6, IPv6Sources = s6,
                 IPv4Destinations = d4, IPv4Sources = s4\<rparr>, r6)))))))"

definition config_of_json :: "string \<Rightarrow> config option" where
  "config_of_json s =
     (case parse_member ''{'' ''Peers'' parse_list s of
        None \<Rightarrow> None
      | Some (peers, r1) \<Rightarrow>
     (case (case parse_member '', '' ''TunnelRouting'' parse_tunnel_routing r1 of
              None \<Rightarrow> Some (None, r1)
            | Some (tr, r2) \<Rightarrow> Some (Some tr, r2)) of
        None \<Rightarrow> None
      | Some (routing, r2) \<Rightarrow>
     (case parse_member '', '' ''AdminListen'' parse_string r2 of
        None \<Rightarrow> None
      | Some (admin, r3) \<Rightarrow>
          if r3 = ''}''
          then Some \<lparr>Peers = peers, TunnelRouting = routing, AdminListen = admin\<rparr>
          else None)))"

text \<open>
  Modelled from the spec: a valid document.  Its strings are made of printable ASCII
  characters, on which the serialiser above and \<^verbatim>\<open>json.dumps\<close> write the same text.
\<close>

definition printable :: "char \<Rightarrow> bool" where
  "printable c = (32 \<le> (of_char c :: nat) \<and> (of_char c :: nat) \<le> 126)"

definition valid_strings :: "string list \<Rightarrow> bool" where
  "valid_strings xs = list_all (list_all printable) xs"

definition valid_config :: "config \<Rightarrow> bool" where
  "valid_config cfg =
     (valid_strings (Peers cfg) \<and> list_all printable (AdminListen cfg) \<and>
      (case TunnelRouting cfg of
         None \<Rightarrow> True
       | Some tr \<Rightarrow>
           valid_strings (IPv6Destinations tr) \<and> valid_strings (IPv6Sources tr) \<and>
           valid_strings (IPv4Destinations tr) \<and> valid_strings (IPv4Sources tr)))"

text \<open>
  An example: a configuration file in the TOML-like format, with a comment, and the
  document it stands for.  \<^verbatim>\<open>toml.loads\<close> is a library function; the example parser
  below knows this one text.
\<close>

definition example_toml_text :: string where
  "example_toml_text =
     ''# yggdrasil.conf'' @ [CHR 0x0A] @
     ''Peers = ['' @ [dq] @ ''tcp://a:9001'' @ [dq] @ '']'' @ [CHR 0x0A] @
     ''AdminListen = '' @ [dq] @ ''unix:///var/run/yggdrasil/yggdrasil.sock'' @ [dq] @ [CHR 0x0A]"

definition example_document :: config where
  "example_document =
     \<lparr>Peers = [''tcp://a:9001''], TunnelRouting = None,
      AdminListen = ''unix:///var/run/yggdrasil/yggdrasil.sock''\<rparr>"

definition example_toml_loads :: "string \<Rightarrow> config option" where
  "example_toml_loads s = (if s = example_toml_text then Some example_document else None)"

definition example_filesystem :: filesystem where
  "example_filesystem =
     \<lparr>files = (\<lambda>path. if path = conf_path then Some example_toml_text else None),
      writable = True\<rparr>"

section \<open>Reloading the daemon\<close>

text \<open>
  IMPLEMENTATION\_NOTES.md, section 6:
  \<^verbatim>\<open>
  def reload_yggdrasil():
      try:
          # Method 1: pidof (fast)
          result = subprocess.run(['pidof', 'yggdrasil'], capture_output=True)
          if result.returncode == 0:
              pid = result.stdout.strip().split()[0]
              subprocess.run(['kill', '-HUP', pid])
              return True

          # Method 2: ps + grep (fallback)
          result = subprocess.run(['ps', 'aux'], capture_output=True)
          for line in result.stdout.split('\n'):
              if 'yggdrasil' in line.lower():
                  pid = line.split()[1]
                  subprocess.run(['kill', '-HUP', pid])
                  return True
      except Exception:
          return False
  \<close>
  The operating system is the environment: what each \<^verbatim>\<open>subprocess.run\<close> call does.  A call
  either raises (the program is missing, for instance) or completes with an exit status
  and, when captured, the output.  \<^verbatim>\<open>subprocess.run\<close> is called without \<^verbatim>\<open>check=True\<close>, so a
  non-zero exit status is not an exception.  Captured output is \<^verbatim>\<open>bytes\<close> unless text
  mode is asked for; \<^verbatim>\<open>bytes.split('\n')\<close> with a \<^verbatim>\<open>str\<close> separator raises \<^verbatim>\<open>TypeError\<close>.
  A Python function that ends without \<^verbatim>\<open>return\<close> yields \<^verbatim>\<open>None\<close>.
\<close>

datatype captured = PyBytes string | PyStr string

datatype run_result = Raises | Completed int captured

datatype kill_result = KillRaises | KillExit int

record process_env =
  run_pidof :: run_result
  run_ps :: run_result
  run_kill :: "string \<Rightarrow> kill_result"

datatype pyret = ReturnsTrue | ReturnsFalse | ReturnsNone

text \<open>
  White space as \<^verbatim>\<open>strip()\<close> and \<^verbatim>\<open>split()\<close> see it: for \<^verbatim>\<open>bytes\<close> the six ASCII
  white space characters; for \<^verbatim>\<open>str\<close> also the separators 0x1C to 0x1F (in the ASCII
  range).
\<close>

definition bytes_isspace :: "char \<Rightarrow> bool" where
  "bytes_isspace c = (c \<in> set [CHR '' '', CHR 0x09, CHR 0x0A, CHR 0x0B, CHR 0x0C, CHR 0x0D])"

definition str_isspace :: "char \<Rightarrow> bool" where
  "str_isspace c =
     (c \<in> set [CHR '' '', CHR 0x09, CHR 0x0A, CHR 0x0B, CHR 0x0C, CHR 0x0D,
                CHR 0x1C, CHR 0x1D, CHR 0x1E, CHR 0x1F])"

definition py_strip :: "(char \<Rightarrow> bool) \<Rightarrow> string \<Rightarrow> string" where
  "py_strip isspace s = rev (dropWhile isspace (rev (dropWhile isspace s)))"

fun split_ws :: "(char \<Rightarrow> bool) \<Rightarrow> string \<Rightarrow> string \<Rightarrow> string list" where
  "split_ws isspace tok [] = (if tok = [] then [] else [tok])"
| "split_ws isspace tok (c # cs) =
     (if isspace c
      then (if tok = [] then split_ws isspace [] cs else tok # split_ws isspace [] cs)
      else split_ws isspace (tok @ [c]) cs)"

definition py_split :: "(char \<Rightarrow> bool) \<Rightarrow> string \<Rightarrow> string list" where
  "py_split isspace s = split_ws isspace [] s"

fun split_on :: "char \<Rightarrow> string \<Rightarrow> string list" where
  "split_on sep [] = [[]]"
| "split_on sep (c # cs) =
     (if c = sep then [] # split_on sep cs
      else (case split_on sep cs of
              [] \<Rightarrow> [[c]]
            | line # rest \<Rightarrow> (c # line) # rest))"

text \<open>\<^verbatim>\<open>out.strip().split()\<close> on captured output of either kind.\<close>

definition captured_words :: "captured \<Rightarrow> string list" where
  "captured_words out =
     (case out of
        PyBytes s \<Rightarrow> py_split bytes_isspace (py_strip bytes_isspace s)
      | PyStr s \<Rightarrow> py_split str_isspace (py_strip str_isspace s))"

definition send_hup :: "process_env \<Rightarrow> string \<Rightarrow> pyret" where
  "send_hup env pid =
     (case run_kill env pid of
        KillRaises \<Rightarrow> ReturnsFalse
      | KillExit code \<Rightarrow> ReturnsTrue)"

fun scan_lines :: "process_env \<Rightarrow> string list \<Rightarrow> pyret" where
  "scan_lines env [] = ReturnsNone"
| "scan_lines env (line # rest) =
     (if py_in ''yggdrasil'' (py_lower line)
      then (case py_split str_isspace line of
              user # pid # cols \<Rightarrow> send_hup env pid
            | _ \<Rightarrow> ReturnsFalse)
      else scan_lines env rest)"

definition reload_yggdrasil :: "process_env \<Rightarrow> pyret" where
  "reload_yggdrasil env =
     (case run_pidof env of
        Raises \<Rightarrow> ReturnsFalse
      | Completed returncode out \<Rightarrow>
          if returncode = 0
          then (case captured_words out of
                  [] \<Rightarrow> ReturnsFalse
                | pid # pids \<Rightarrow> send_hup env pid)
          else (case run_ps env of
                  Raises \<Rightarrow> ReturnsFalse
                | Completed code (PyBytes s) \<Rightarrow> ReturnsFalse
                | Completed code (PyStr s) \<Rightarrow> scan_lines env (split_on (CHR 0x0A) s)))"

text \<open>The reload signal reached the process when \<^verbatim>\<open>kill\<close> exited with status 0.\<close>

definition signal_delivered :: "process_env \<Rightarrow> string \<Rightarrow> bool" where
  "signal_delivered env pid = (run_kill env pid = KillExit 0)"

section \<open>Frontend: the API client\<close>

text \<open>
  \<^verbatim>\<open>fetchAPI\<close> in the API client (\<^verbatim>\<open>lib/api\<close>):
  \<^verbatim>\<open>
  try {
    const response = await fetch(url, {...});
    const data = await response.json();
    if (!response.ok) {
      // API returned an error
      const error = data as ApiError;
      throw new Error(error.error || `HTTP ${response.status}: ${response.statusText}`);
    }
    return data as T;
  } catch (error) {
    if (error instanceof Error) {
      throw error;
    }
    throw new Error('Unknown error occurred');
  }
  \<close>
  A promise that rejects is the left injection, with the thrown value: an \<^verbatim>\<open>Error\<close>
  object (of any subclass) with its message, or some other value.  A response carries
  its status line and the outcome of \<^verbatim>\<open>response.json()\<close>, which rejects when the body is
  not JSON.  \<^verbatim>\<open>response.ok\<close> is true for the statuses 200 to 299.
\<close>

datatype json =
  JNull | JBool bool | JNum real | JStr string | JArr "json list" | JObj "(string \<times> json) list"

datatype js_thrown = ErrorObj string | NonError

record response =
  status :: nat
  statusText :: string
  body :: "js_thrown + json"

definition response_ok :: "response \<Rightarrow> bool" where
  "response_ok r = (200 \<le> status r \<and> status r \<le> 299)"

text \<open>
  Reading a property: \<^verbatim>\<open>null.error\<close> throws a \<^verbatim>\<open>TypeError\<close> (the message is the one
  of V8, which names the property between single quotes); an object parsed from JSON
  yields the value of the key (the last one if the key is repeated) or \<^verbatim>\<open>undefined\<close>,
  here \<open>None\<close>; the other JSON values have no property of the names used here.
\<close>

definition null_property_message :: "string \<Rightarrow> string" where
  "null_property_message key =
     ''Cannot read properties of null (reading '' @ [CHR 0x27] @ key @ [CHR 0x27] @ '')''"

definition get_property :: "json \<Rightarrow> string \<Rightarrow> js_thrown + json option" where
  "get_property v key =
     (case v of
        JNull \<Rightarrow> Inl (ErrorObj (null_property_message key))
      | JObj members \<Rightarrow> Inr (map_of (rev members) key)
      | _ \<Rightarrow> Inr None)"

definition truthy :: "json option \<Rightarrow> bool" where
  "truthy v =
     (case v of
        None \<Rightarrow> False
      | Some JNull \<Rightarrow> False
      | Some (JBool b) \<Rightarrow> b
      | Some (JNum n) \<Rightarrow> n \<noteq> 0
      | Some (JStr s) \<Rightarrow> s \<noteq> []
      | Some (JArr xs) \<Rightarrow> True
      | Some (JObj members) \<Rightarrow> True)"

text \<open>
  \<^verbatim>\<open>new Error(v)\<close> converts \<^verbatim>\<open>v\<close> to a string for the message: a string is taken as it
  is, and the conversion of the other values is the parameter \<open>to_string\<close>.
\<close>

definition message_of :: "(json \<Rightarrow> string) \<Rightarrow> json option \<Rightarrow> string" where
  "message_of to_string v =
     (case v of
        None \<Rightarrow> []
      | Some (JStr s) \<Rightarrow> s
      | Some w \<Rightarrow> to_string w)"

fun show_nat :: "nat \<Rightarrow> string" where
  "show_nat n =
     (if n < 10 then [''0123456789'' ! n]
      else show_nat (n div 10) @ [''0123456789'' ! (n mod 10)])"

definition http_message :: "response \<Rightarrow> string" where
  "http_message r = ''HTTP '' @ show_nat (status r) @ '': '' @ statusText r"

definition fetchAPI_try :: "(json \<Rightarrow> string) \<Rightarrow> js_thrown + response \<Rightarrow> js_thrown + json" where
  "fetchAPI_try to_string fetched =
     (case fetched of
        Inl thrown \<Rightarrow> Inl thrown
      | Inr r \<Rightarrow>
          (case body r of
             Inl thrown \<Rightarrow> Inl thrown
           | Inr data \<Rightarrow>
               if \<not> response_ok r
               then (case get_property data ''error'' of
                       Inl thrown \<Rightarrow> Inl thrown
                     | Inr err \<Rightarrow>
                         Inl (ErrorObj (if truthy err then message_of to_string err
                                        else http_message r)))
               else Inr data))"

definition fetchAPI :: "(json \<Rightarrow> string) \<Rightarrow> js_thrown + response \<Rightarrow> js_thrown + json" where
  "fetchAPI to_string fetched =
     (case fetchAPI_try to_string fetched of
        Inl (ErrorObj m) \<Rightarrow> Inl (ErrorObj m)
      | Inl NonError \<Rightarrow> Inl (ErrorObj ''Unknown error occurred'')
      | Inr data \<Rightarrow> Inr data)"

section \<open>Frontend: the exit node switch of the settings page\<close>

text \<open>
  \<^verbatim>\<open>handleExitNodeToggle\<close> in \<^verbatim>\<open>app/settings/page.tsx\<close>:
  \<^verbatim>\<open>
  setExitNodeEnabled(enabled);
  setIsSaving(true);
  setError(null);
  setSuccess(null);
  try {
    const result = await setExitNode(enabled);
    if (result.reload_success) {
      setSuccess(enabled ? 'Exit node enabled successfully'
                         : 'Exit node disabled successfully');
      setTimeout(() => setSuccess(null), 3000);
    } else {
      throw new Error('Failed to reload Yggdrasil configuration');
    }
  } catch (err) {
    // Revert optimistic update on error
    setExitNodeEnabled(!enabled);
    setError(err instanceof Error ? err.message : 'Failed to update exit node settings');
  } finally {
    setIsSaving(false);
  }
  \<close>
  The component state is a record, the handler takes the state before the call and the
  outcome of the \<^verbatim>\<open>setExitNode\<close> request and returns the state when the handler is done
  (the timer that clears the success message three seconds later is a later event).
\<close>

record settings_state =
  exitNodeEnabled :: bool
  isSaving :: bool
  error :: "string option"
  success :: "string option"

definition toggle_try :: "bool \<Rightarrow> js_thrown + json \<Rightarrow> js_thrown + string" where
  "toggle_try enabled requested =
     (case requested of
        Inl thrown \<Rightarrow> Inl thrown
      | Inr result \<Rightarrow>
          (case get_property result ''reload_success'' of
             Inl thrown \<Rightarrow> Inl thrown
           | Inr reload_success \<Rightarrow>
               if truthy reload_success
               then Inr (if enabled then ''Exit node enabled successfully''
                         else ''Exit node disabled successfully'')
               else Inl (ErrorObj ''Failed to reload Yggdrasil configuration'')))"

definition handleExitNodeToggle ::
  "bool \<Rightarrow> js_thrown + json \<Rightarrow> settings_state \<Rightarrow> settings_state" where
  "handleExitNodeToggle enabled requested st =
     (let st1 = st\<lparr>exitNodeEnabled := enabled, isSaving := True,
                   error := None, success := None\<rparr>;
          st2 = (case toggle_try enabled requested of
                   Inr msg \<Rightarrow> st1\<lparr>success := Some msg\<rparr>
                 | Inl thrown \<Rightarrow>
                     st1\<lparr>exitNodeEnabled := \<not> enabled,
                         error := Some (case thrown of
                            ErrorObj m \<Rightarrow> m
                          | NonError \<Rightarrow> ''Failed to update exit node settings'')\<rparr>)
      in st2\<lparr>isSaving := False\<rparr>)"

section \<open>Properties of the exit node toggle\<close>

lemma any_routes_iff:
  "any_routes tr \<longleftrightarrow>
     IPv6Destinations tr \<noteq> [] \<or> IPv6Sources tr \<noteq> [] \<or>
     IPv4Destinations tr \<noteq> [] \<or> IPv4Sources tr \<noteq> []"
  by (simp add: any_routes_def)

lemma toggle_enable_fields:
  "Enable (toggle_exit_node True tr) = True"
  "''::/0'' \<in> set (IPv6Destinations (toggle_exit_node True tr))"
  by (simp_all add: toggle_exit_node_def Let_def)

lemma toggle_disable_invariant:
  "routing_invariant (toggle_exit_node False tr)"
  by (simp add: routing_invariant_def toggle_exit_node_def Let_def)

lemma toggle_enable_invariant:
  "routing_invariant (toggle_exit_node True tr)"
proof -
  have "IPv6Destinations (toggle_exit_node True tr) \<noteq> []"
    using toggle_enable_fields(2) [of tr] by auto
  then show ?thesis
    by (simp add: routing_invariant_def any_routes_iff)
qed

text \<open>
  Claim C1.  Whatever the document held before, with or without a \<^verbatim>\<open>TunnelRouting\<close>
  block, and for either value of the flag, the document produced by the exit node
  toggle has a routing block that satisfies the invariant: \<^verbatim>\<open>Enable\<close> is true only if one
  of the four route lists is non-empty.  On a document with no routing block, enabling
  answers \<^verbatim>\<open>enabled = true\<close> with the single advertised route \<^verbatim>\<open>::/0\<close>.
\<close>

theorem set_exit_node_invariant:
  "(\<exists>tr. TunnelRouting (set_exit_node enabled cfg) = Some tr \<and> routing_invariant tr) \<and>
   (TunnelRouting cfg = None \<longrightarrow>
      exit_node_response (set_exit_node True cfg) = (True, [''::/0'']))"
proof (intro conjI impI)
  show "\<exists>tr. TunnelRouting (set_exit_node enabled cfg) = Some tr \<and> routing_invariant tr"
    by (cases enabled)
       (simp_all add: set_exit_node_def toggle_enable_invariant toggle_disable_invariant)
next
  assume "TunnelRouting cfg = None"
  then show "exit_node_response (set_exit_node True cfg) = (True, [''::/0''])"
    by (simp add: exit_node_response_def set_exit_node_def tunnel_routing_of_def
        toggle_exit_node_def empty_tunnel_routing_def Let_def)
qed

theorem set_exit_node_invariant_witness:
  "TunnelRouting \<lparr>Peers = [], TunnelRouting = None, AdminListen = ''unix:///var/run/yggdrasil/yggdrasil.sock''\<rparr> = None \<and>
   (\<exists>tr. TunnelRouting (set_exit_node True
            \<lparr>Peers = [], TunnelRouting = None, AdminListen = ''unix:///var/run/yggdrasil/yggdrasil.sock''\<rparr>) = Some tr \<and>
         Enable tr \<and> any_routes tr) \<and>
   exit_node_response (set_exit_node True
      \<lparr>Peers = [], TunnelRouting = None, AdminListen = ''unix:///var/run/yggdrasil/yggdrasil.sock''\<rparr>)
     = (True, [''::/0'']) \<and>
   exit_node_response (set_exit_node False
      \<lparr>Peers = [], TunnelRouting = Some \<lparr>Enable = True, IPv6Destinations = [''::/0''],
          IPv6Sources = [], IPv4Destinations = [], IPv4Sources = []\<rparr>, AdminListen = []\<rparr>)
     = (False, [])"
  using set_exit_node_invariant [of True
      "\<lparr>Peers = [], TunnelRouting = None, AdminListen = ''unix:///var/run/yggdrasil/yggdrasil.sock''\<rparr>"]
    set_exit_node_invariant [of False
      "\<lparr>Peers = [], TunnelRouting = Some \<lparr>Enable = True, IPv6Destinations = [''::/0''],
          IPv6Sources = [], IPv4Destinations = [], IPv4Sources = []\<rparr>, AdminListen = []\<rparr>"]
  by (simp add: routing_invariant_def set_exit_node_def toggle_exit_node_def
      tunnel_routing_of_def empty_tunnel_routing_def exit_node_response_def any_routes_def Let_def)

lemma toggle_disable_routes:
  "IPv6Destinations (toggle_exit_node False tr) = remove1 ''::/0'' (IPv6Destinations tr)"
  "IPv6Sources (toggle_exit_node False tr) = IPv6Sources tr"
  "IPv4Destinations (toggle_exit_node False tr) = IPv4Destinations tr"
  "IPv4Sources (toggle_exit_node False tr) = IPv4Sources tr"
  by (simp_all add: toggle_exit_node_def Let_def remove1_idem)

lemma toggle_disable_flag:
  "Enable (toggle_exit_node False tr) = (Enable tr \<and> any_routes (toggle_exit_node False tr))"
  by (auto simp add: toggle_exit_node_def any_routes_def Let_def)

lemma tunnel_routing_of_set_exit_node:
  "tunnel_routing_of (set_exit_node enabled cfg) = toggle_exit_node enabled (tunnel_routing_of cfg)"
  by (simp add: set_exit_node_def tunnel_routing_of_def)

text \<open>
  What the disable branch does to any routing block: the first \<^verbatim>\<open>::/0\<close> is taken out
  of \<^verbatim>\<open>IPv6Destinations\<close>, the three other route lists are untouched, and the flag ends
  false exactly when it was false or all four lists are empty afterwards.
\<close>

lemma toggle_disable_effect:
  assumes "tr' = toggle_exit_node False tr"
  shows "IPv6Destinations tr' = remove1 ''::/0'' (IPv6Destinations tr)"
    and "IPv6Sources tr' = IPv6Sources tr"
    and "IPv4Destinations tr' = IPv4Destinations tr"
    and "IPv4Sources tr' = IPv4Sources tr"
    and "Enable tr' = (Enable tr \<and> any_routes tr')"
  using assms toggle_disable_flag [of tr] by (simp_all add: toggle_disable_routes)

lemma toggle_disable_single_route:
  "toggle_exit_node False
      \<lparr>Enable = True, IPv6Destinations = [''::/0''], IPv6Sources = [],
       IPv4Destinations = [], IPv4Sources = []\<rparr>
     = \<lparr>Enable = False, IPv6Destinations = [], IPv6Sources = [],
        IPv4Destinations = [], IPv4Sources = []\<rparr>"
  by (simp add: toggle_exit_node_def any_routes_def Let_def)

text \<open>
  Claim C2 says that, for every document, disabling removes \<^verbatim>\<open>::/0\<close> from
  \<^verbatim>\<open>IPv6Destinations\<close> and then sets \<^verbatim>\<open>Enable\<close> to false when all four route lists are
  empty.  The snippet calls \<^verbatim>\<open>list.remove\<close> once, which deletes one occurrence.  A
  configuration file may list \<^verbatim>\<open>::/0\<close> twice and no other route: after disabling, the
  route is still in \<^verbatim>\<open>IPv6Destinations\<close>, and \<^verbatim>\<open>Enable\<close> is still true although no other
  route exists.
\<close>

theorem set_exit_node_disable_repeated_route:
  "tunnel_routing_of (set_exit_node False
      \<lparr>Peers = [],
       TunnelRouting = Some \<lparr>Enable = True, IPv6Destinations = [''::/0'', ''::/0''],
          IPv6Sources = [], IPv4Destinations = [], IPv4Sources = []\<rparr>,
       AdminListen = ''unix:///var/run/yggdrasil/yggdrasil.sock''\<rparr>)
     = \<lparr>Enable = True, IPv6Destinations = [''::/0''],
        IPv6Sources = [], IPv4Destinations = [], IPv4Sources = []\<rparr> \<and>
   exit_node_response (set_exit_node False
      \<lparr>Peers = [],
       TunnelRouting = Some \<lparr>Enable = True, IPv6Destinations = [''::/0'', ''::/0''],
          IPv6Sources = [], IPv4Destinations = [], IPv4Sources = []\<rparr>,
       AdminListen = ''unix:///var/run/yggdrasil/yggdrasil.sock''\<rparr>)
     = (True, [''::/0''])"
  by (simp add: exit_node_response_def set_exit_node_def toggle_exit_node_def
      tunnel_routing_of_def any_routes_def Let_def)

text \<open>
  Claim C8.  Enabling the exit node twice gives the same document as enabling it once:
  the flag is true both times and \<^verbatim>\<open>::/0\<close> is appended only when absent, so the second
  call changes nothing; in particular the advertised routes and the flag in the response
  are the same.
\<close>

theorem set_exit_node_enable_idempotent:
  "set_exit_node True (set_exit_node True cfg) = set_exit_node True cfg \<and>
   exit_node_response (set_exit_node True (set_exit_node True cfg))
     = exit_node_response (set_exit_node True cfg)"
proof -
  have "toggle_exit_node True (toggle_exit_node True tr) = toggle_exit_node True tr" for tr
    by (simp add: toggle_exit_node_def Let_def)
  then have "set_exit_node True (set_exit_node True cfg) = set_exit_node True cfg"
    by (simp add: set_exit_node_def tunnel_routing_of_def)
  then show ?thesis by simp
qed

theorem set_exit_node_enable_idempotent_witness:
  "exit_node_response (set_exit_node True (set_exit_node True
      \<lparr>Peers = [], TunnelRouting = Some \<lparr>Enable = False, IPv6Destinations = [''fd00::/8''],
          IPv6Sources = [], IPv4Destinations = [], IPv4Sources = []\<rparr>, AdminListen = []\<rparr>))
     = (True, [''fd00::/8'', ''::/0''])"
  using set_exit_node_enable_idempotent [of
      "\<lparr>Peers = [], TunnelRouting = Some \<lparr>Enable = False, IPv6Destinations = [''fd00::/8''],
          IPv6Sources = [], IPv4Destinations = [], IPv4Sources = []\<rparr>, AdminListen = []\<rparr>"]
  by (simp add: set_exit_node_def toggle_exit_node_def tunnel_routing_of_def
      exit_node_response_def Let_def)

section \<open>Properties of bootstrap\<close>

lemma append_novel_eq:
  "append_novel existing selected (peers, added) =
     (peers @ filter (\<lambda>p. p \<notin> existing) selected,
      added @ filter (\<lambda>p. p \<notin> existing) selected)"
  by (induction selected arbitrary: peers added) simp_all

lemma length_without_nth:
  "j < length xs \<Longrightarrow> length (take j xs @ drop (Suc j) xs) = length xs - 1"
  by (simp add: min_def)

lemma draw_length:
  "k \<le> length pool \<Longrightarrow> length (draw rnd pool k) = k"
proof (induction rnd pool k rule: draw.induct)
  case (3 rnd p ps k)
  let ?pool = "p # ps"
  let ?j = "rnd k mod length ?pool"
  have "?j < length ?pool" by simp
  then have "length (take ?j ?pool @ drop (Suc ?j) ?pool) = length ?pool - 1"
    by (rule length_without_nth)
  then have "k \<le> length (take ?j ?pool @ drop (Suc ?j) ?pool)"
    using "3.prems" by simp
  then have "length (draw rnd (take ?j ?pool @ drop (Suc ?j) ?pool) k) = k"
    by (rule "3.IH" [OF refl])
  then show ?case by (simp add: Let_def del: take_Suc_Cons drop_Suc_Cons)
qed simp_all

lemma mset_without_nth:
  assumes "j < length xs"
  shows "mset xs = add_mset (xs ! j) (mset (take j xs @ drop (Suc j) xs))"
proof -
  have "xs = take j xs @ xs ! j # drop (Suc j) xs"
    using assms by (rule id_take_nth_drop)
  then have "mset xs = mset (take j xs @ xs ! j # drop (Suc j) xs)"
    by simp
  then show ?thesis by simp
qed

lemma draw_subset:
  "mset (draw rnd pool k) \<subseteq># mset pool"
proof (induction rnd pool k rule: draw.induct)
  case (3 rnd p ps k)
  let ?pool = "p # ps"
  let ?j = "rnd k mod length ?pool"
  have j: "?j < length ?pool" by simp
  have "mset (draw rnd (take ?j ?pool @ drop (Suc ?j) ?pool) k)
      \<subseteq># mset (take ?j ?pool @ drop (Suc ?j) ?pool)"
    by (rule "3.IH" [OF refl])
  then have "add_mset (?pool ! ?j) (mset (draw rnd (take ?j ?pool @ drop (Suc ?j) ?pool) k))
      \<subseteq># mset ?pool"
    unfolding mset_without_nth [OF j] by simp
  moreover have "draw rnd ?pool (Suc k)
      = ?pool ! ?j # draw rnd (take ?j ?pool @ drop (Suc ?j) ?pool) k"
    by (simp add: Let_def)
  ultimately show ?case by (simp only: mset.simps)
qed simp_all

text \<open>
  With at least \<open>k\<close> candidates the sample succeeds, has exactly \<open>k\<close> elements and takes
  no candidate more often than the population holds it (no replacement).
\<close>

lemma random_sample_size:
  assumes "k \<le> length population"
  shows "\<exists>selected. random_sample rnd population k = Inr selected \<and> length selected = k \<and>
     mset selected \<subseteq># mset population"
  using assms by (simp add: random_sample_def draw_length draw_subset)

lemma py_lower_examples:
  "py_lower ''Germany'' = ''germany''"
  "py_lower ''United States'' = ''united states''"
  by (simp_all add: py_lower_def py_lower_char_def)

lemma eligible_peers_examples:
  "eligible_peers [''us'', ''europe'', ''united states'', ''germany'']
      [(''Germany'', [''tcp://a:9001'', ''tcp://b:9001'']), (''United States'', [''tcp://c:9001''])]
     = [''tcp://a:9001'', ''tcp://b:9001'', ''tcp://c:9001'']"
  "eligible_peers [''us'', ''europe'', ''united states'', ''germany'']
      [(''Germany'', [''tcp://a:9001'', ''tcp://b:9001''])]
     = [''tcp://a:9001'', ''tcp://b:9001'']"
  by (simp_all add: eligible_peers_def py_lower_examples)

lemma draw_example:
  "draw (\<lambda>i. 0) [''tcp://a:9001'', ''tcp://b:9001'', ''tcp://c:9001''] 3
     = [''tcp://a:9001'', ''tcp://b:9001'', ''tcp://c:9001'']"
  by code_simp

text \<open>
  Claim C3.  Whatever peers the document already lists and whatever the feed offers,
  when bootstrap returns, no URI it reports as added was already among the document's
  peers: the added URIs are the selected ones that are not in the old list, in selection
  order, and the new peer list is the old one followed by them.
\<close>

theorem bootstrap_added_disjoint:
  assumes "bootstrap rnd preferred_regions peer_data cfg = Inr res"
  shows "set (peers_added res) \<inter> set (Peers cfg) = {} \<and>
         (\<exists>selected. random_sample rnd (eligible_peers preferred_regions peer_data) 3 = Inr selected \<and>
            peers_added res = filter (\<lambda>p. p \<notin> set (Peers cfg)) selected) \<and>
         Peers (new_config res) = Peers cfg @ peers_added res \<and>
         total_peers res = length (Peers (new_config res))"
proof -
  from assms obtain selected where
    sel: "random_sample rnd (eligible_peers preferred_regions peer_data) 3 = Inr selected"
    by (auto simp add: bootstrap_def split: sum.splits)
  with assms have res: "res = \<lparr>peers_added = filter (\<lambda>p. p \<notin> set (Peers cfg)) selected,
      total_peers = length (Peers cfg @ filter (\<lambda>p. p \<notin> set (Peers cfg)) selected),
      new_config = cfg\<lparr>Peers := Peers cfg @ filter (\<lambda>p. p \<notin> set (Peers cfg)) selected\<rparr>\<rparr>"
    by (simp add: bootstrap_def append_novel_eq)
  have "set (peers_added res) \<inter> set (Peers cfg) = {}"
    unfolding res by auto
  then show ?thesis
    using sel by (simp add: res)
qed

theorem bootstrap_added_disjoint_witness:
  "bootstrap (\<lambda>i. 0) [''us'', ''europe'', ''united states'', ''germany'']
      [(''Germany'', [''tcp://a:9001'', ''tcp://b:9001'']), (''United States'', [''tcp://c:9001''])]
      \<lparr>Peers = [''tcp://a:9001''], TunnelRouting = None, AdminListen = []\<rparr>
     = Inr \<lparr>peers_added = [''tcp://b:9001'', ''tcp://c:9001''], total_peers = 3,
            new_config = \<lparr>Peers = [''tcp://a:9001'', ''tcp://b:9001'', ''tcp://c:9001''],
              TunnelRouting = None, AdminListen = []\<rparr>\<rparr> \<and>
   set [''tcp://b:9001'', ''tcp://c:9001''] \<inter> set [''tcp://a:9001''] = {}"
proof -
  have run: "bootstrap (\<lambda>i. 0) [''us'', ''europe'', ''united states'', ''germany'']
      [(''Germany'', [''tcp://a:9001'', ''tcp://b:9001'']), (''United States'', [''tcp://c:9001''])]
      \<lparr>Peers = [''tcp://a:9001''], TunnelRouting = None, AdminListen = []\<rparr>
     = Inr \<lparr>peers_added = [''tcp://b:9001'', ''tcp://c:9001''], total_peers = 3,
            new_config = \<lparr>Peers = [''tcp://a:9001'', ''tcp://b:9001'', ''tcp://c:9001''],
              TunnelRouting = None, AdminListen = []\<rparr>\<rparr>"
    by (simp add: bootstrap_def random_sample_def eligible_peers_examples draw_example)
  have "set [''tcp://b:9001'', ''tcp://c:9001''] \<inter> set [''tcp://a:9001''] = {}"
    using bootstrap_added_disjoint [OF run, THEN conjunct1] by simp
  with run show ?thesis by (rule conjI)
qed

text \<open>
  Claim C4 says that with fewer than three eligible candidates bootstrap selects all of
  them and does not fail.  The snippet asks \<^verbatim>\<open>random.sample\<close> for three elements whatever
  the size of \<^verbatim>\<open>available_peers\<close>: with two eligible candidates the call raises
  \<^verbatim>\<open>ValueError\<close> and nothing is selected.
\<close>

theorem bootstrap_two_candidates_fails:
  "eligible_peers [''us'', ''europe'', ''united states'', ''germany'']
      [(''Germany'', [''tcp://a:9001'', ''tcp://b:9001''])]
     = [''tcp://a:9001'', ''tcp://b:9001''] \<and>
   bootstrap (\<lambda>i. 0) [''us'', ''europe'', ''united states'', ''germany'']
      [(''Germany'', [''tcp://a:9001'', ''tcp://b:9001''])]
      \<lparr>Peers = [], TunnelRouting = None, AdminListen = []\<rparr>
     = Inl ValueError"
  by (simp add: bootstrap_def random_sample_def eligible_peers_examples)

section \<open>Properties of the config store\<close>

text \<open>
  Every parser reads back what the serialiser of the same kind writes, and hands on the
  text that follows.
\<close>

lemma expect_append:
  "expect lit (lit @ rest) = Some rest"
  by (simp add: expect_def)

lemma parse_string_body_escaped:
  "parse_string_body (concat (map json_escape_char s) @ dq # rest) = Some (s, rest)"
proof (induction s)
  case Nil
  show ?case by (cases rest) simp_all
next
  case (Cons c s)
  obtain e tl where tail: "concat (map json_escape_char s) @ dq # rest = e # tl"
    by (cases "concat (map json_escape_char s) @ dq # rest") simp_all
  have ih: "parse_string_body (e # tl) = Some (s, rest)"
    using Cons.IH unfolding tail .
  have shape: "concat (map json_escape_char (c # s)) @ dq # rest = json_escape_char c @ e # tl"
    by (simp add: tail)
  show ?case
  proof (cases "c = dq \<or> c = bs")
    case True
    then have esc: "json_escape_char c = [bs, c]"
      by (simp add: json_escape_char_def)
    have "parse_string_body (bs # c # e # tl) = Some (c # s, rest)"
      using ih True by (auto simp add: dq_def bs_def)
    then show ?thesis
      unfolding shape esc append_Cons append_Nil .
  next
    case False
    then have esc: "json_escape_char c = [c]"
      by (simp add: json_escape_char_def)
    have "parse_string_body (c # e # tl) = Some (c # s, rest)"
      using ih False by simp
    then show ?thesis
      unfolding shape esc append_Cons append_Nil .
  qed
qed

lemma parse_string_json:
  "parse_string (json_string s @ rest) = Some (s, rest)"
  by (simp add: parse_string_def json_string_def expect_def parse_string_body_escaped)

lemma parse_bool_json:
  "parse_bool (json_bool b @ rest) = Some (b, rest)"
  by (simp add: parse_bool_def json_bool_def expect_def)

lemma expect_bracket_string:
  "expect '']'' (json_string x @ rest) = None"
  "expect '']'' ('', '' @ rest) = None"
  by (simp_all add: expect_def json_string_def dq_def)

lemma parse_more_json:
  "length xs < n \<Longrightarrow> parse_more n (json_more xs @ '']'' @ rest) = Some (xs, rest)"
proof (induction xs arbitrary: n)
  case Nil
  then obtain m where "n = Suc m" by (cases n) simp_all
  then show ?case by (simp add: json_more_def expect_def)
next
  case (Cons x xs)
  then obtain m where n: "n = Suc m" and m: "length xs < m" by (cases n) simp_all
  have shape: "json_more (x # xs) @ '']'' @ rest
      = '', '' @ (json_string x @ (json_more xs @ '']'' @ rest))"
    by (simp add: json_more_def)
  have "parse_more (Suc m) ('', '' @ (json_string x @ (json_more xs @ '']'' @ rest)))
      = Some (x # xs, rest)"
    using Cons.IH [OF m, of ]
    by (simp add: expect_bracket_string(2) expect_append parse_string_json
        del: append.simps)
  then show ?case unfolding shape n .
qed

lemma length_json_more:
  "length xs \<le> length (json_more xs)"
  by (induction xs) (simp_all add: json_more_def)

lemma parse_list_json:
  "parse_list (json_list xs @ rest) = Some (xs, rest)"
proof (cases xs)
  case Nil
  then show ?thesis by (simp add: parse_list_def json_list_def expect_def)
next
  case (Cons x ys)
  have fuel: "length ys < length (json_more ys @ '']'' @ rest)"
    using length_json_more [of ys] by simp
  have shape: "json_list (x # ys) @ rest
      = ''['' @ (json_string x @ (json_more ys @ '']'' @ rest))"
    by (simp add: json_list_def)
  have "parse_list (''['' @ (json_string x @ (json_more ys @ '']'' @ rest))) = Some (x # ys, rest)"
    using parse_more_json [OF fuel]
    by (simp add: parse_list_def expect_append expect_bracket_string(1) parse_string_json
        del: append.simps)
  then show ?thesis unfolding Cons shape .
qed

lemma parse_member_json:
  assumes "parse_value (text @ rest) = Some (v, rest)"
  shows "parse_member sep k parse_value (sep @ json_key k @ text @ rest) = Some (v, rest)"
  using assms expect_append [of "sep @ json_key k" "text @ rest"]
  by (simp add: parse_member_def)

lemma parse_tunnel_routing_json:
  "parse_tunnel_routing (json_tunnel_routing tr @ rest) = Some (tr, rest)"
proof -
  let ?t5 = "''}'' @ rest"
  let ?t4 = "'', '' @ json_key ''IPv4Sources'' @ json_list (IPv4Sources tr) @ ?t5"
  let ?t3 = "'', '' @ json_key ''IPv4Destinations'' @ json_list (IPv4Destinations tr) @ ?t4"
  let ?t2 = "'', '' @ json_key ''IPv6Sources'' @ json_list (IPv6Sources tr) @ ?t3"
  let ?t1 = "'', '' @ json_key ''IPv6Destinations'' @ json_list (IPv6Destinations tr) @ ?t2"
  let ?t0 = "''{'' @ json_key ''Enable'' @ json_bool (Enable tr) @ ?t1"
  have shape: "json_tunnel_routing tr @ rest = ?t0"
    by (simp add: json_tunnel_routing_def)
  have 0: "parse_member ''{'' ''Enable'' parse_bool ?t0 = Some (Enable tr, ?t1)"
    by (rule parse_member_json) (rule parse_bool_json)
  have 1: "parse_member '', '' ''IPv6Destinations'' parse_list ?t1 = Some (IPv6Destinations tr, ?t2)"
    by (rule parse_member_json) (rule parse_list_json)
  have 2: "parse_member '', '' ''IPv6Sources'' parse_list ?t2 = Some (IPv6Sources tr, ?t3)"
    by (rule parse_member_json) (rule parse_list_json)
  have 3: "parse_member '', '' ''IPv4Destinations'' parse_list ?t3 = Some (IPv4Destinations tr, ?t4)"
    by (rule parse_member_json) (rule parse_list_json)
  have 4: "parse_member '', '' ''IPv4Sources'' parse_list ?t4 = Some (IPv4Sources tr, ?t5)"
    by (rule parse_member_json) (rule parse_list_json)
  have 5: "expect ''}'' ?t5 = Some rest"
    by (rule expect_append)
  show ?thesis
    unfolding shape parse_tunnel_routing_def by (simp only: 0 1 2 3 4 5 option.case prod.case) simp
qed


lemma no_tunnel_routing_member:
  "parse_member '', '' ''TunnelRouting'' parse_value ('', '' @ json_key ''AdminListen'' @ rest) = None"
  by (simp add: parse_member_def expect_def json_key_def json_string_def json_escape_char_def
      dq_def bs_def)

lemma config_of_json_inverse:
  "config_of_json (config_to_json cfg) = Some cfg"
proof -
  let ?t3 = "''}''"
  let ?t2 = "'', '' @ json_key ''AdminListen'' @ json_string (AdminListen cfg) @ ?t3"
  have peers: "parse_member ''{'' ''Peers'' parse_list
      (''{'' @ json_key ''Peers'' @ json_list (Peers cfg) @ t) = Some (Peers cfg, t)" for t
    by (rule parse_member_json) (rule parse_list_json)
  have admin: "parse_member '', '' ''AdminListen'' parse_string ?t2 = Some (AdminListen cfg, ?t3)"
    by (rule parse_member_json) (rule parse_string_json)
  show ?thesis
  proof (cases "TunnelRouting cfg")
    case None
    have shape: "config_to_json cfg = ''{'' @ json_key ''Peers'' @ json_list (Peers cfg) @ ?t2"
      by (simp add: config_to_json_def None)
    have "parse_member '', '' ''TunnelRouting'' parse_tunnel_routing ?t2 = None"
      by (rule no_tunnel_routing_member)
    then have "config_of_json (''{'' @ json_key ''Peers'' @ json_list (Peers cfg) @ ?t2)
        = Some \<lparr>Peers = Peers cfg, TunnelRouting = None, AdminListen = AdminListen cfg\<rparr>"
      unfolding config_of_json_def
      by (simp only: peers admin option.case prod.case) simp
    then show ?thesis
      unfolding shape using None by simp
  next
    case (Some tr)
    let ?t1 = "'', '' @ json_key ''TunnelRouting'' @ json_tunnel_routing tr @ ?t2"
    have shape: "config_to_json cfg = ''{'' @ json_key ''Peers'' @ json_list (Peers cfg) @ ?t1"
      by (simp add: config_to_json_def Some)
    have "parse_member '', '' ''TunnelRouting'' parse_tunnel_routing ?t1 = Some (tr, ?t2)"
      by (rule parse_member_json) (rule parse_tunnel_routing_json)
    then have "config_of_json (''{'' @ json_key ''Peers'' @ json_list (Peers cfg) @ ?t1)
        = Some \<lparr>Peers = Peers cfg, TunnelRouting = Some tr, AdminListen = AdminListen cfg\<rparr>"
      unfolding config_of_json_def
      by (simp only: peers admin option.case prod.case) simp
    then show ?thesis
      unfolding shape using Some by simp
  qed
qed

lemma saved_file:
  "write_yggdrasil_config dumps cfg fs = (True, fs') \<Longrightarrow>
   files fs' conf_path = Some (dumps cfg) \<and> files fs' tmp_path = None"
  by (auto simp add: write_yggdrasil_config_def rename_file_def write_file_def
      conf_path_def tmp_path_def split: if_splits)

text \<open>
  Claim C5.  For every valid document, loading after a successful save returns that
  document, whatever the configuration file held before (a text in the TOML-like format,
  for instance), whatever the TOML parser accepts and whatever the default document is:
  the save leaves the JSON text of the document in the configuration file and no
  temporary file, and the loader tries the JSON parse first, which reads that text back.
  The file is rewritten in the canonical format, so the round trip normalises the format.
  Validity is what makes the text written here the one \<^verbatim>\<open>json.dumps\<close> writes; the parser
  reads back the text of any document.
\<close>

theorem save_load_roundtrip:
  assumes "valid_config cfg"
    and "write_yggdrasil_config config_to_json cfg fs = (True, fs')"
  shows "load_config mock config_of_json toml_loads fs' = Inr cfg \<and>
         files fs' conf_path = Some (config_to_json cfg) \<and>
         files fs' tmp_path = None"
  using saved_file [OF assms(2)]
  by (simp add: load_config_def read_yggdrasil_config_def config_of_json_inverse)

text \<open>
  The example: the file holds the TOML-like text, from which the loader gets the example
  document through the fallback parser; the exit node is enabled on it and the result is
  saved; loading then returns the changed document from the JSON text now in the file.
\<close>

lemma example_values:
  "config_of_json example_toml_text = None"
  "valid_config example_document"
  "valid_config (set_exit_node True example_document)"
  by code_simp+

lemma example_file_is_toml:
  "load_config mock config_of_json example_toml_loads example_filesystem = Inr example_document"
  by (simp add: load_config_def read_yggdrasil_config_def example_filesystem_def
      example_values(1) example_toml_loads_def)

lemma example_json_text:
  "config_to_json cfg \<noteq> example_toml_text"
  by (simp add: config_to_json_def example_toml_text_def)

theorem save_load_roundtrip_witness:
  "load_config mock_config config_of_json example_toml_loads example_filesystem
     = Inr example_document \<and>
   valid_config (set_exit_node True example_document) \<and>
   set_exit_node True example_document \<noteq> example_document \<and>
   load_config mock_config config_of_json example_toml_loads
      (snd (write_yggdrasil_config config_to_json (set_exit_node True example_document)
         example_filesystem))
     = Inr (set_exit_node True example_document) \<and>
   files (snd (write_yggdrasil_config config_to_json (set_exit_node True example_document)
         example_filesystem)) conf_path
     = Some (config_to_json (set_exit_node True example_document)) \<and>
   files (snd (write_yggdrasil_config config_to_json (set_exit_node True example_document)
         example_filesystem)) conf_path
     \<noteq> files example_filesystem conf_path"
proof -
  let ?saved = "snd (write_yggdrasil_config config_to_json (set_exit_node True example_document)
      example_filesystem)"
  have valid: "valid_config (set_exit_node True example_document)"
    by (rule example_values(3))
  have written: "write_yggdrasil_config config_to_json (set_exit_node True example_document)
      example_filesystem = (True, ?saved)"
    by (simp add: write_yggdrasil_config_def example_filesystem_def)
  have changed: "set_exit_node True example_document \<noteq> example_document"
    by (simp add: set_exit_node_def example_document_def)
  have before: "files example_filesystem conf_path = Some example_toml_text"
    by (simp add: example_filesystem_def)
  have after: "load_config mock_config config_of_json example_toml_loads ?saved
        = Inr (set_exit_node True example_document) \<and>
      files ?saved conf_path = Some (config_to_json (set_exit_node True example_document)) \<and>
      files ?saved tmp_path = None"
    by (rule save_load_roundtrip [OF valid written])
  then have "files ?saved conf_path \<noteq> files example_filesystem conf_path"
    unfolding before using example_json_text [of "set_exit_node True example_document"] by simp
  with example_file_is_toml [of mock_config] valid changed after show ?thesis
    by blast
qed

text \<open>
  Claim C6.  When the configuration file does not exist, loading does not fail and
  returns the default document.  Loading fails exactly when the file exists and both
  the JSON parse and the TOML parse of its content fail, and the failure is then
  \<^verbatim>\<open>ConfigCorrupt\<close>.
\<close>

theorem read_config_failure:
  "(file = None \<longrightarrow> read_yggdrasil_config mock json_loads toml_loads file = Inr mock) \<and>
   ((\<exists>e. read_yggdrasil_config mock json_loads toml_loads file = Inl e) \<longleftrightarrow>
      (\<exists>content. file = Some content \<and> json_loads content = None \<and> toml_loads content = None)) \<and>
   (\<forall>e. read_yggdrasil_config mock json_loads toml_loads file = Inl e \<longrightarrow> e = ConfigCorrupt)"
  by (auto simp add: read_yggdrasil_config_def split: option.splits)

theorem read_config_failure_witness:
  "read_yggdrasil_config mock_config (\<lambda>s. None) (\<lambda>s. None) None = Inr mock_config \<and>
   Peers mock_config = [] \<and>
   Enable (tunnel_routing_of mock_config) = False \<and>
   AdminListen mock_config = ''unix:///var/run/yggdrasil/yggdrasil.sock'' \<and>
   read_yggdrasil_config mock_config (\<lambda>s. None) (\<lambda>s. None) (Some ''{'') = Inl ConfigCorrupt"
proof -
  have "read_yggdrasil_config mock_config (\<lambda>s. None) (\<lambda>s. None) None = Inr mock_config"
    using read_config_failure [of None mock_config "\<lambda>s. None" "\<lambda>s. None"] by simp
  moreover have "read_yggdrasil_config mock_config (\<lambda>s. None) (\<lambda>s. None) (Some ''{'')
      = Inl ConfigCorrupt"
    using read_config_failure [of "Some ''{''" mock_config "\<lambda>s. None" "\<lambda>s. None"] by auto
  ultimately show ?thesis
    by (simp add: mock_config_def tunnel_routing_of_def empty_tunnel_routing_def)
qed

section \<open>Properties of the reload\<close>

lemma captured_words_pid:
  "captured_words (PyBytes ''1234'') = [''1234'']"
  by (simp add: captured_words_def py_split_def py_strip_def bytes_isspace_def)

text \<open>
  Claim C7 says that the reload returns true exactly when a daemon process is found
  and the signal is delivered to it.  The snippet runs \<^verbatim>\<open>kill\<close> without looking at its
  exit status: when \<^verbatim>\<open>pidof\<close> reports a process and \<^verbatim>\<open>kill\<close> exits with status 1
  (not permitted), the signal is not delivered and the function still returns
  \<^verbatim>\<open>True\<close>.
\<close>

theorem reload_true_without_delivery:
  "reload_yggdrasil
      \<lparr>run_pidof = Completed 0 (PyBytes ''1234''), run_ps = Raises,
       run_kill = (\<lambda>pid. KillExit 1)\<rparr> = ReturnsTrue \<and>
   \<not> signal_delivered
      \<lparr>run_pidof = Completed 0 (PyBytes ''1234''), run_ps = Raises,
       run_kill = (\<lambda>pid. KillExit 1)\<rparr> ''1234''"
  by (simp add: reload_yggdrasil_def captured_words_pid send_hup_def
      signal_delivered_def)

text \<open>
  The second strategy: the captured output of \<^verbatim>\<open>ps\<close> is \<^verbatim>\<open>bytes\<close>, so splitting it at
  a \<^verbatim>\<open>str\<close> newline raises and the function answers \<^verbatim>\<open>False\<close> even when the process
  table lists the daemon.  Were the output text, a table without a matching line would
  end the loop and the function would return \<^verbatim>\<open>None\<close>.
\<close>

lemma reload_scan_bytes:
  "reload_yggdrasil
      \<lparr>run_pidof = Completed 1 (PyBytes []),
       run_ps = Completed 0 (PyBytes ''root 4321 0.0 /usr/bin/yggdrasil''),
       run_kill = (\<lambda>pid. KillExit 0)\<rparr> = ReturnsFalse"
  by (simp add: reload_yggdrasil_def)

lemma reload_scan_text_no_match:
  "reload_yggdrasil
      \<lparr>run_pidof = Completed 1 (PyBytes []),
       run_ps = Completed 0 (PyStr ''USER PID COMMAND''),
       run_kill = (\<lambda>pid. KillExit 0)\<rparr> = ReturnsNone"
  by (simp add: reload_yggdrasil_def py_lower_def py_lower_char_def)

section \<open>Properties of the API client\<close>

lemma fetchAPI_not_ok:
  assumes "\<not> response_ok r"
  shows "fetchAPI to_string (Inr r) =
     (case body r of
        Inl (ErrorObj m) \<Rightarrow> Inl (ErrorObj m)
      | Inl NonError \<Rightarrow> Inl (ErrorObj ''Unknown error occurred'')
      | Inr data \<Rightarrow>
          (case get_property data ''error'' of
             Inl (ErrorObj m) \<Rightarrow> Inl (ErrorObj m)
           | Inl NonError \<Rightarrow> Inl (ErrorObj ''Unknown error occurred'')
           | Inr err \<Rightarrow> Inl (ErrorObj (if truthy err then message_of to_string err
                                        else http_message r))))"
  using assms
  by (simp add: fetchAPI_def fetchAPI_try_def split: sum.splits js_thrown.splits)

lemma fetchAPI_returns:
  assumes "fetchAPI to_string fetched = Inr v"
  shows "\<exists>r. fetched = Inr r \<and> response_ok r \<and> body r = Inr v"
  using assms
  by (auto simp add: fetchAPI_def fetchAPI_try_def
      split: sum.splits js_thrown.splits if_splits)

lemma get_property_not_null:
  assumes "data \<noteq> JNull"
  shows "\<exists>err. get_property data key = Inr err"
  using assms by (cases data) (simp_all add: get_property_def)

lemma message_of_string:
  "message_of to_string (Some (JStr s)) = s"
  by (simp add: message_of_def)

text \<open>
  Claim C9, as the code has it.  For a response that is not ok, \<^verbatim>\<open>fetchAPI\<close> throws an
  \<^verbatim>\<open>Error\<close> and returns no value.  When the body does not parse as JSON, the error of
  \<^verbatim>\<open>response.json()\<close> is rethrown with its own message (a thrown value that is not an
  \<^verbatim>\<open>Error\<close> becomes ``Unknown error occurred'').  When the body is the JSON value
  \<^verbatim>\<open>null\<close>, reading its \<^verbatim>\<open>error\<close> property throws a \<^verbatim>\<open>TypeError\<close>, which is rethrown.  For
  every other JSON body the message is the body's \<^verbatim>\<open>error\<close> field if that is a non-empty
  string, the string conversion of the field if it is another truthy value, and
  \<^verbatim>\<open>HTTP <status>: <statusText>\<close> if the field is absent or falsy.  A value is returned
  only when the response is ok and its body parses as JSON, and it is the parsed body.
\<close>

theorem fetchAPI_outcome:
  "(\<not> response_ok r \<longrightarrow>
      (\<exists>m. fetchAPI to_string (Inr r) = Inl (ErrorObj m)) \<and>
      (\<forall>m. body r = Inl (ErrorObj m) \<longrightarrow> fetchAPI to_string (Inr r) = Inl (ErrorObj m)) \<and>
      (body r = Inl NonError \<longrightarrow>
         fetchAPI to_string (Inr r) = Inl (ErrorObj ''Unknown error occurred'')) \<and>
      (body r = Inr JNull \<longrightarrow>
         fetchAPI to_string (Inr r) = Inl (ErrorObj (null_property_message ''error''))) \<and>
      (\<forall>data. body r = Inr data \<and> data \<noteq> JNull \<longrightarrow>
         (\<exists>err. get_property data ''error'' = Inr err \<and>
            (\<forall>s. err = Some (JStr s) \<and> s \<noteq> [] \<longrightarrow>
               fetchAPI to_string (Inr r) = Inl (ErrorObj s)) \<and>
            (truthy err \<longrightarrow>
               fetchAPI to_string (Inr r) = Inl (ErrorObj (message_of to_string err))) \<and>
            (\<not> truthy err \<longrightarrow>
               fetchAPI to_string (Inr r) = Inl (ErrorObj (http_message r)))))) \<and>
   (\<forall>v. fetchAPI to_string fetched = Inr v \<longrightarrow>
      (\<exists>r'. fetched = Inr r' \<and> response_ok r' \<and> body r' = Inr v))"
proof (intro conjI impI allI)
  assume nok: "\<not> response_ok r"
  show "\<exists>m. fetchAPI to_string (Inr r) = Inl (ErrorObj m)"
    by (simp add: fetchAPI_not_ok [OF nok] split: sum.splits js_thrown.splits)
next
  fix m
  assume nok: "\<not> response_ok r" and "body r = Inl (ErrorObj m)"
  then show "fetchAPI to_string (Inr r) = Inl (ErrorObj m)"
    by (simp add: fetchAPI_not_ok [OF nok])
next
  assume nok: "\<not> response_ok r" and "body r = Inl NonError"
  then show "fetchAPI to_string (Inr r) = Inl (ErrorObj ''Unknown error occurred'')"
    by (simp add: fetchAPI_not_ok [OF nok])
next
  assume nok: "\<not> response_ok r" and "body r = Inr JNull"
  then show "fetchAPI to_string (Inr r) = Inl (ErrorObj (null_property_message ''error''))"
    by (simp add: fetchAPI_not_ok [OF nok] get_property_def)
next
  fix data
  assume nok: "\<not> response_ok r" and data: "body r = Inr data \<and> data \<noteq> JNull"
  then obtain err where err: "get_property data ''error'' = Inr err"
    using get_property_not_null [of data "''error''"] by blast
  have thrown: "fetchAPI to_string (Inr r) =
      Inl (ErrorObj (if truthy err then message_of to_string err else http_message r))"
    using data err by (simp add: fetchAPI_not_ok [OF nok])
  have "fetchAPI to_string (Inr r) = Inl (ErrorObj s)"
    if "err = Some (JStr s) \<and> s \<noteq> []" for s
    using that by (simp add: thrown truthy_def message_of_string)
  then show "\<exists>err. get_property data ''error'' = Inr err \<and>
      (\<forall>s. err = Some (JStr s) \<and> s \<noteq> [] \<longrightarrow>
         fetchAPI to_string (Inr r) = Inl (ErrorObj s)) \<and>
      (truthy err \<longrightarrow>
         fetchAPI to_string (Inr r) = Inl (ErrorObj (message_of to_string err))) \<and>
      (\<not> truthy err \<longrightarrow>
         fetchAPI to_string (Inr r) = Inl (ErrorObj (http_message r)))"
    using err thrown by auto
next
  fix v
  assume "fetchAPI to_string fetched = Inr v"
  then show "\<exists>r'. fetched = Inr r' \<and> response_ok r' \<and> body r' = Inr v"
    by (rule fetchAPI_returns)
qed

lemma show_nat_examples:
  "show_nat 404 = ''404''"
  "show_nat 500 = ''500''"
  "show_nat 502 = ''502''"
  by code_simp+

theorem fetchAPI_outcome_witness:
  "\<not> response_ok \<lparr>status = 500, statusText = ''Internal Server Error'',
        body = Inr (JObj [(''error'', JStr ''Failed to write config'')])\<rparr> \<and>
   fetchAPI (\<lambda>v. [])
      (Inr \<lparr>status = 500, statusText = ''Internal Server Error'',
        body = Inr (JObj [(''error'', JStr ''Failed to write config'')])\<rparr>)
     = Inl (ErrorObj ''Failed to write config'') \<and>
   fetchAPI (\<lambda>v. [])
      (Inr \<lparr>status = 404, statusText = ''Not Found'', body = Inr (JObj [])\<rparr>)
     = Inl (ErrorObj ''HTTP 404: Not Found'') \<and>
   fetchAPI (\<lambda>v. [])
      (Inr \<lparr>status = 500, statusText = ''Internal Server Error'', body = Inr JNull\<rparr>)
     = Inl (ErrorObj (null_property_message ''error'')) \<and>
   fetchAPI (\<lambda>v. [])
      (Inr \<lparr>status = 502, statusText = ''Bad Gateway'',
        body = Inl (ErrorObj ''Unexpected token < in JSON at position 0'')\<rparr>)
     = Inl (ErrorObj ''Unexpected token < in JSON at position 0'') \<and>
   fetchAPI (\<lambda>v. [])
      (Inr \<lparr>status = 200, statusText = ''OK'', body = Inr (JObj [(''peers'', JArr [])])\<rparr>)
     = Inr (JObj [(''peers'', JArr [])]) \<and>
   response_ok \<lparr>status = 200, statusText = ''OK'', body = Inr (JObj [(''peers'', JArr [])])\<rparr>"
proof -
  let ?r1 = "\<lparr>status = 500, statusText = ''Internal Server Error'',
        body = Inr (JObj [(''error'', JStr ''Failed to write config'')])\<rparr>"
  let ?r2 = "\<lparr>status = 404, statusText = ''Not Found'', body = Inr (JObj [])\<rparr>"
  let ?r3 = "\<lparr>status = 502, statusText = ''Bad Gateway'',
        body = Inl (ErrorObj ''Unexpected token < in JSON at position 0'')\<rparr>"
  let ?r4 = "\<lparr>status = 200, statusText = ''OK'', body = Inr (JObj [(''peers'', JArr [])])\<rparr>"
  let ?r5 = "\<lparr>status = 500, statusText = ''Internal Server Error'', body = Inr JNull\<rparr>"
  have nok: "\<not> response_ok ?r1" "\<not> response_ok ?r2" "\<not> response_ok ?r3"
    "\<not> response_ok ?r5"
    by (simp_all add: response_ok_def)
  have ok: "response_ok ?r4"
    by (simp add: response_ok_def)
  have props: "get_property (JObj [(''error'', JStr ''Failed to write config'')]) ''error''
      = Inr (Some (JStr ''Failed to write config''))"
    "get_property (JObj []) ''error'' = Inr None" "\<not> truthy None"
    by (simp_all add: get_property_def truthy_def)
  have 1: "fetchAPI (\<lambda>v. []) (Inr ?r1) = Inl (ErrorObj ''Failed to write config'')"
    using nok(1) props(1) fetchAPI_outcome [of ?r1 "\<lambda>v. []" "Inr ?r4"] by simp
  have 2: "fetchAPI (\<lambda>v. []) (Inr ?r2) = Inl (ErrorObj ''HTTP 404: Not Found'')"
    using nok(2) props(2,3) fetchAPI_outcome [of ?r2 "\<lambda>v. []" "Inr ?r4"]
    by (simp add: http_message_def show_nat_examples del: show_nat.simps)
  have 3: "fetchAPI (\<lambda>v. []) (Inr ?r3)
      = Inl (ErrorObj ''Unexpected token < in JSON at position 0'')"
    using nok(3) fetchAPI_outcome [of ?r3 "\<lambda>v. []" "Inr ?r4"] by simp
  have 5: "fetchAPI (\<lambda>v. []) (Inr ?r5) = Inl (ErrorObj (null_property_message ''error''))"
    using nok(4) fetchAPI_outcome [of ?r5 "\<lambda>v. []" "Inr ?r4"] by simp
  have 4: "fetchAPI (\<lambda>v. []) (Inr ?r4) = Inr (JObj [(''peers'', JArr [])])"
    using ok by (simp add: fetchAPI_def fetchAPI_try_def)
  show ?thesis
    using nok(1) 1 2 3 4 5 ok by simp
qed

text \<open>
  The claim as first stated gives every non-ok response without a non-empty string
  \<^verbatim>\<open>error\<close> field the message \<^verbatim>\<open>HTTP <status>: <statusText>\<close>.  A 502 answer whose body is
  an HTML page has no such field, yet the message thrown is the one of the JSON parse
  error.
\<close>

theorem fetchAPI_message_counterexample:
  "\<not> response_ok \<lparr>status = 502, statusText = ''Bad Gateway'',
        body = Inl (ErrorObj ''Unexpected token < in JSON at position 0'')\<rparr> \<and>
   http_message \<lparr>status = 502, statusText = ''Bad Gateway'',
        body = Inl (ErrorObj ''Unexpected token < in JSON at position 0'')\<rparr>
     = ''HTTP 502: Bad Gateway'' \<and>
   fetchAPI (\<lambda>v. [])
      (Inr \<lparr>status = 502, statusText = ''Bad Gateway'',
        body = Inl (ErrorObj ''Unexpected token < in JSON at position 0'')\<rparr>)
     = Inl (ErrorObj ''Unexpected token < in JSON at position 0'') \<and>
   fetchAPI (\<lambda>v. [])
      (Inr \<lparr>status = 502, statusText = ''Bad Gateway'',
        body = Inl (ErrorObj ''Unexpected token < in JSON at position 0'')\<rparr>)
     \<noteq> Inl (ErrorObj ''HTTP 502: Bad Gateway'')"
  by (simp add: response_ok_def http_message_def show_nat_examples fetchAPI_def
      fetchAPI_try_def del: show_nat.simps)

section \<open>Properties of the exit node switch\<close>

lemma toggle_try_failure:
  assumes "(\<exists>thrown. requested = Inl thrown) \<or>
     (\<exists>result flag. requested = Inr result \<and>
        get_property result ''reload_success'' = Inr flag \<and> \<not> truthy flag)"
  shows "\<exists>thrown. toggle_try e requested = Inl thrown"
  using assms by (auto simp add: toggle_try_def)

text \<open>
  Claim C10.  When the handler is called with \<open>e\<close> while the switch shows \<open>\<not> e\<close>, and the
  request rejects or resolves with a result whose \<^verbatim>\<open>reload_success\<close> is false (or absent),
  the switch is back at the value it showed before the call, the error state holds a
  message, no success message is set and the saving flag is cleared.  For a result with
  \<^verbatim>\<open>reload_success\<close> false the message is ``Failed to reload Yggdrasil configuration'';
  for a rejection with an \<^verbatim>\<open>Error\<close> it is that error's message.
\<close>

theorem toggle_failure_reverts:
  assumes "exitNodeEnabled st = (\<not> e)"
    and "(\<exists>thrown. requested = Inl thrown) \<or>
     (\<exists>result flag. requested = Inr result \<and>
        get_property result ''reload_success'' = Inr flag \<and> \<not> truthy flag)"
  shows "exitNodeEnabled (handleExitNodeToggle e requested st) = exitNodeEnabled st \<and>
         (\<exists>m. error (handleExitNodeToggle e requested st) = Some m) \<and>
         success (handleExitNodeToggle e requested st) = None \<and>
         isSaving (handleExitNodeToggle e requested st) = False \<and>
         (\<forall>result flag. requested = Inr result \<and>
              get_property result ''reload_success'' = Inr flag \<longrightarrow>
            error (handleExitNodeToggle e requested st)
              = Some ''Failed to reload Yggdrasil configuration'') \<and>
         (\<forall>m. requested = Inl (ErrorObj m) \<longrightarrow>
            error (handleExitNodeToggle e requested st) = Some m)"
proof -
  from toggle_try_failure [OF assms(2)] obtain thrown
    where thrown: "toggle_try e requested = Inl thrown" by blast
  have reload: "thrown = ErrorObj ''Failed to reload Yggdrasil configuration''"
    if "requested = Inr result" "get_property result ''reload_success'' = Inr flag"
    for result flag
    using that thrown assms(2) by (auto simp add: toggle_try_def split: if_splits)
  have reject: "thrown = ErrorObj m" if "requested = Inl (ErrorObj m)" for m
    using that thrown by (simp add: toggle_try_def)
  have final: "handleExitNodeToggle e requested st =
      st\<lparr>exitNodeEnabled := \<not> e, isSaving := False, success := None,
         error := Some (case thrown of
            ErrorObj m \<Rightarrow> m
          | NonError \<Rightarrow> ''Failed to update exit node settings'')\<rparr>"
    by (simp add: handleExitNodeToggle_def thrown Let_def)
  have "exitNodeEnabled (handleExitNodeToggle e requested st) = exitNodeEnabled st"
    using assms(1) by (simp add: final)
  moreover have "\<exists>m. error (handleExitNodeToggle e requested st) = Some m"
    by (simp add: final)
  moreover have "success (handleExitNodeToggle e requested st) = None"
    and "isSaving (handleExitNodeToggle e requested st) = False"
    by (simp_all add: final)
  moreover have "error (handleExitNodeToggle e requested st)
        = Some ''Failed to reload Yggdrasil configuration''"
    if "requested = Inr result \<and> get_property result ''reload_success'' = Inr flag"
    for result flag
    using reload [of result flag] that unfolding final by simp
  moreover have "error (handleExitNodeToggle e requested st) = Some m"
    if "requested = Inl (ErrorObj m)" for m
    using reject [OF that] unfolding final by simp
  ultimately show ?thesis by blast
qed

theorem toggle_failure_reverts_witness:
  "handleExitNodeToggle True
      (Inr (JObj [(''status'', JStr ''exit_node_updated''), (''enabled'', JBool True),
                  (''reload_success'', JBool False)]))
      \<lparr>exitNodeEnabled = False, isSaving = False, error = None, success = None\<rparr>
     = \<lparr>exitNodeEnabled = False, isSaving = False,
        error = Some ''Failed to reload Yggdrasil configuration'', success = None\<rparr> \<and>
   handleExitNodeToggle False (Inl (ErrorObj ''Failed to fetch''))
      \<lparr>exitNodeEnabled = True, isSaving = False, error = None, success = None\<rparr>
     = \<lparr>exitNodeEnabled = True, isSaving = False,
        error = Some ''Failed to fetch'', success = None\<rparr>"
proof -
  let ?result = "JObj [(''status'', JStr ''exit_node_updated''), (''enabled'', JBool True),
                  (''reload_success'', JBool False)]"
  let ?off = "\<lparr>exitNodeEnabled = False, isSaving = False, error = None, success = None\<rparr>"
  let ?on = "\<lparr>exitNodeEnabled = True, isSaving = False, error = None, success = None\<rparr>"
  have shown: "exitNodeEnabled ?off = (\<not> True)" "exitNodeEnabled ?on = (\<not> False)"
    by simp_all
  have resolved: "(\<exists>thrown. (Inr ?result :: js_thrown + json) = Inl thrown) \<or>
     (\<exists>result flag. (Inr ?result :: js_thrown + json) = Inr result \<and>
        get_property result ''reload_success'' = Inr flag \<and> \<not> truthy flag)"
    by (simp add: get_property_def truthy_def)
  have rejected: "(\<exists>thrown. (Inl (ErrorObj ''Failed to fetch'') :: js_thrown + json) = Inl thrown) \<or>
     (\<exists>result flag. (Inl (ErrorObj ''Failed to fetch'') :: js_thrown + json) = Inr result \<and>
        get_property result ''reload_success'' = Inr flag \<and> \<not> truthy flag)"
    by simp
  have "handleExitNodeToggle True (Inr ?result) ?off
      = \<lparr>exitNodeEnabled = False, isSaving = False,
         error = Some ''Failed to reload Yggdrasil configuration'', success = None\<rparr>"
    using toggle_failure_reverts [OF shown(1) resolved]
    by (simp add: handleExitNodeToggle_def toggle_try_def get_property_def truthy_def Let_def)
  moreover have "handleExitNodeToggle False (Inl (ErrorObj ''Failed to fetch'')) ?on
      = \<lparr>exitNodeEnabled = True, isSaving = False,
         error = Some ''Failed to fetch'', success = None\<rparr>"
    using toggle_failure_reverts [OF shown(2) rejected]
    by (simp add: handleExitNodeToggle_def toggle_try_def Let_def)
  ultimately show ?thesis by (rule conjI)
qed

end
